theory Spec2Isabelle
  imports Complex_Main "HOL-Library.List_Lexorder" "HOL-Library.Char_ord"
begin

section \<open>Characters, strings and the regular expressions of the pipeline\<close>

text \<open>
  Python strings are sequences of code points. A HOL \<^typ>\<open>char\<close> stands for a code point
  below 256, so the model covers texts in that range; \<open>length\<close> counts code points as
  Python's \<open>len\<close> does. The three character classes below are those of CPython for
  these code points: \<open>str.isspace\<close> (also the class \<open>\s\<close> of \<open>re\<close> on \<open>str\<close> patterns),
  the class \<open>\w\<close> (alphanumeric or underscore) and \<open>str.lower\<close>.
\<close>

definition is_space :: "char \<Rightarrow> bool" where
  "is_space c =
     (let n = (of_char c :: nat)
      in (9 \<le> n \<and> n \<le> 13) \<or> (28 \<le> n \<and> n \<le> 32) \<or> n = 133 \<or> n = 160)"

definition is_word :: "char \<Rightarrow> bool" where
  "is_word c =
     (let n = (of_char c :: nat)
      in (48 \<le> n \<and> n \<le> 57) \<or> (65 \<le> n \<and> n \<le> 90) \<or> n = 95 \<or> (97 \<le> n \<and> n \<le> 122)
         \<or> n = 170 \<or> n = 178 \<or> n = 179 \<or> n = 181 \<or> n = 185 \<or> n = 186
         \<or> (188 \<le> n \<and> n \<le> 190) \<or> (192 \<le> n \<and> n \<le> 214)
         \<or> (216 \<le> n \<and> n \<le> 246) \<or> 248 \<le> n)"

definition lower_char :: "char \<Rightarrow> char" where
  "lower_char c =
     (let n = (of_char c :: nat)
      in if (65 \<le> n \<and> n \<le> 90) \<or> (192 \<le> n \<and> n \<le> 214) \<or> (216 \<le> n \<and> n \<le> 222)
         then char_of (n + 32) else c)"

text \<open>\<open>s.lower()\<close>\<close>

definition lower :: "string \<Rightarrow> string" where
  "lower s = map lower_char s"

text \<open>\<open>s.strip()\<close>: leading and trailing whitespace removed.\<close>

definition strip :: "string \<Rightarrow> string" where
  "strip s = rev (dropWhile is_space (rev (dropWhile is_space s)))"

text \<open>
  \<open>re.sub(r"\s+", " ", text)\<close>: every maximal run of whitespace becomes one space. The
  flag says that the scan is inside a run whose space has been written already.
\<close>

fun sub_ws :: "bool \<Rightarrow> string \<Rightarrow> string" where
  "sub_ws in_run [] = []"
| "sub_ws in_run (c # cs) =
     (if is_space c then (if in_run then sub_ws True cs else CHR '' '' # sub_ws True cs)
      else c # sub_ws False cs)"

text \<open>
  \<open>re.findall(r"\w+", s)\<close>: the maximal runs of word characters, left to right. The first
  argument is the run being read, reversed.
\<close>

fun findall_run :: "string \<Rightarrow> string \<Rightarrow> string list" where
  "findall_run cur [] = (if cur = [] then [] else [rev cur])"
| "findall_run cur (c # cs) =
     (if is_word c then findall_run (c # cur) cs
      else if cur = [] then findall_run [] cs
      else rev cur # findall_run [] cs)"

definition findall_words :: "string \<Rightarrow> string list" where
  "findall_words s = findall_run [] s"

text \<open>
  \<open>re.split(r"(?<=[.!?])\s+", s)\<close>: the separators are the maximal whitespace runs that
  directly follow one of \<open>.\<close>, \<open>!\<close>, \<open>?\<close>. A separator can only begin at the start of a
  whitespace run (inside a run the preceding character is whitespace), never at the
  start of the string, and a separator at the very end leaves a last empty piece, as
  \<open>re.split\<close> does. The first argument is the piece being read, reversed; the flag
  says that the scan is inside a separator.
\<close>

definition is_sentence_end :: "char \<Rightarrow> bool" where
  "is_sentence_end c = (c = CHR ''.'' \<or> c = CHR ''!'' \<or> c = CHR ''?'')"

fun split_run :: "string \<Rightarrow> bool \<Rightarrow> string \<Rightarrow> string list" where
  "split_run cur in_sep [] = [rev cur]"
| "split_run cur in_sep (c # cs) =
     (if is_space c \<and> in_sep then split_run cur True cs
      else if is_space c \<and> (case cur of [] \<Rightarrow> False | p # _ \<Rightarrow> is_sentence_end p)
        then rev cur # split_run [] True cs
      else split_run (c # cur) False cs)"

definition split_sentences :: "string \<Rightarrow> string list" where
  "split_sentences s = split_run [] False s"

text \<open>\<open>sub in s\<close> for strings: \<open>sub\<close> occurs in \<open>s\<close> as a contiguous substring.\<close>

fun is_prefix :: "string \<Rightarrow> string \<Rightarrow> bool" where
  "is_prefix [] s = True"
| "is_prefix (a # as) [] = False"
| "is_prefix (a # as) (b # bs) = (a = b \<and> is_prefix as bs)"

fun contains :: "string \<Rightarrow> string \<Rightarrow> bool" where
  "contains [] sub = (sub = [])"
| "contains (c # cs) sub = (is_prefix sub (c # cs) \<or> contains cs sub)"

text \<open>\<open>sep.join(parts)\<close>\<close>

fun join :: "string \<Rightarrow> string list \<Rightarrow> string" where
  "join sep [] = []"
| "join sep [p] = p"
| "join sep (p # q # ps) = p @ sep @ join sep (q # ps)"

text \<open>\<open>str(i)\<close> for an integer: decimal digits, with a minus sign when negative.\<close>

fun str_nat :: "nat \<Rightarrow> string" where
  "str_nat n =
     (if n < 10 then [''0123456789'' ! n]
      else str_nat (n div 10) @ [''0123456789'' ! (n mod 10)])"

definition str_int :: "int \<Rightarrow> string" where
  "str_int i = (if i < 0 then CHR ''-'' # str_nat (nat (- i)) else str_nat (nat i))"

text \<open>
  Slices. \<open>xs[a:b]\<close> with Python's rules: a negative bound counts from the end, and both
  bounds are clamped to the list. \<open>xs[:k]\<close> is \<open>py_slice xs 0 k\<close>.
\<close>

definition slice_bound :: "nat \<Rightarrow> int \<Rightarrow> nat" where
  "slice_bound n i = (if i < 0 then nat (int n + i) else min (nat i) n)"

definition py_slice :: "'a list \<Rightarrow> int \<Rightarrow> int \<Rightarrow> 'a list" where
  "py_slice xs a b =
     (let lo = slice_bound (length xs) a; hi = slice_bound (length xs) b
      in take (hi - lo) (drop lo xs))"

text \<open>\<open>range(i, stop, step)\<close> for a positive step, as the list it enumerates.\<close>

function py_range :: "nat \<Rightarrow> nat \<Rightarrow> nat \<Rightarrow> nat list" where
  "py_range i stop step =
     (if i < stop \<and> 0 < step then i # py_range (i + step) stop step else [])"
  by pat_completeness auto
termination
  by (relation "measure (\<lambda>(i, stop, step). stop - i)") auto

declare py_range.simps [simp del]


section \<open>Data model\<close>

text \<open>The dataclass \<open>Chunk\<close>. Its field \<open>text\<close> is named \<open>chunk_text\<close> here.\<close>

record chunk =
  doc_id :: string
  chunk_id :: int
  chunk_text :: string

text \<open>
  Exceptions as values. \<open>ValueError\<close> carries the message of a failed model fit and
  \<open>HTTPError\<close> that of a failed request; both come from the libraries only.
\<close>

datatype error =
    AssertionError string
  | RuntimeError string
  | ValueError string
  | NotFittedError
  | IndexError
  | HTTPError string

text \<open>
  The file system as the pipeline reads it: for a directory path, the regular files in
  it, each with its name and its decoded content.
\<close>

type_synonym file_system = "string \<Rightarrow> (string \<times> string) list"

section \<open>LocalCorpus\<close>

record local_corpus =
  data_dir :: string
  chunk_size :: int
  chunk_overlap :: int

definition LocalCorpus_init :: "string \<Rightarrow> int \<Rightarrow> int \<Rightarrow> local_corpus" where
  "LocalCorpus_init d csize coverlap =
     \<lparr>data_dir = d, chunk_size = csize, chunk_overlap = coverlap\<rparr>"

text \<open>\<open>re.sub(r"\s+", " ", text).strip()\<close>, the first line of \<open>_split_text\<close>.\<close>

definition normalize :: "string \<Rightarrow> string" where
  "normalize s = strip (sub_ws False s)"

text \<open>\<open>LocalCorpus._split_text\<close>\<close>

definition LocalCorpus_split_text :: "local_corpus \<Rightarrow> string \<Rightarrow> string list" where
  "LocalCorpus_split_text self s =
     (let t = normalize s
      in if t = [] then []
         else let step = nat (max 1 (chunk_size self - chunk_overlap self))
              in map (\<lambda>i. py_slice t (int i) (int i + chunk_size self))
                   (py_range 0 (length t) step))"

text \<open>The names that \<open>glob("*.txt")\<close> selects.\<close>

definition matches_txt :: "string \<Rightarrow> bool" where
  "matches_txt name = (4 \<le> length name \<and> drop (length name - 4) name = ''.txt'')"

text \<open>The inner loop of \<open>load\<close>: the chunks of one file, numbered by \<open>enumerate\<close>.\<close>

definition file_chunks :: "local_corpus \<Rightarrow> string \<times> string \<Rightarrow> chunk list" where
  "file_chunks self f =
     map (\<lambda>(i, ch). \<lparr>doc_id = fst f, chunk_id = int i, chunk_text = ch\<rparr>)
       (enumerate 0 (LocalCorpus_split_text self (snd f)))"

text \<open>
  \<open>LocalCorpus.load\<close>: the selected files in the order of their names, each chunked.
  The method has no \<open>raise\<close>; its result is always \<open>Inr\<close>.
\<close>

definition LocalCorpus_load :: "local_corpus \<Rightarrow> file_system \<Rightarrow> error + chunk list" where
  "LocalCorpus_load self fs =
     Inr (concat (map (file_chunks self)
            (sort_key fst (filter (\<lambda>f. matches_txt (fst f)) (fs (data_dir self))))))"

section \<open>The libraries behind the index\<close>

text \<open>
  scikit-learn, numpy and the HTTP client are not part of the repository. The pipeline is
  modelled over them as parameters:
  \<^item> \<open>fit_transform docs\<close> is
    \<open>TfidfVectorizer(ngram_range=(1, 2), min_df=1, max_df=0.9).fit_transform(docs)\<close>: the
    message of the \<open>ValueError\<close> it raises, or the fitted vectorizer and the matrix;
  \<open>query_sims v m q\<close> is \<open>cosine_similarity(v.transform([q]), m)[0]\<close>;
  \<^item> \<open>argsort\<close> is \<open>numpy.argsort\<close> with its default \<open>kind\<close>;
  \<^item> \<open>chat_completions key model system user\<close> is the POST to the chat endpoint: the
    failure, or the content of the first choice.
  Scores are floats without NaN (cosine similarities of TF-IDF rows); they are modelled
  as reals, of which the index only uses the order and the negation.
\<close>

record ('v, 'm) library =
  fit_transform :: "string list \<Rightarrow> string + ('v \<times> 'm)"
  query_sims :: "'v \<Rightarrow> 'm \<Rightarrow> string \<Rightarrow> real list"
  argsort :: "real list \<Rightarrow> nat list"
  chat_completions :: "string \<Rightarrow> string \<Rightarrow> string \<Rightarrow> string \<Rightarrow> string + string"

text \<open>
  What the documentation of the libraries promises and the index relies on:
  \<open>argsort\<close> returns the indices of its argument, each once, in an order that sorts it
  ascending (nothing is promised about equal elements: the default kind is not stable),
  and the similarities have one entry per fitted document.
\<close>

definition argsort_contract :: "(real list \<Rightarrow> nat list) \<Rightarrow> bool" where
  "argsort_contract f =
     (\<forall>xs. distinct (f xs) \<and> set (f xs) = {..<length xs} \<and> sorted (map (\<lambda>i. xs ! i) (f xs)))"

definition library_contract :: "('v, 'm) library \<Rightarrow> bool" where
  "library_contract L =
     (argsort_contract (argsort L) \<and>
      (\<forall>docs v m q. fit_transform L docs = Inr (v, m) \<longrightarrow>
         length (query_sims L v m q) = length docs))"

section \<open>TfidfIndex\<close>

text \<open>
  The vectorizer object is created unfitted by \<open>build\<close> and fitted in place by
  \<open>fit_transform\<close>.
\<close>

datatype 'v vectorizer = Unfitted | Fitted 'v

record ('v, 'm) tfidf_index =
  vectorizer :: "'v vectorizer option"
  matrix :: "'m option"
  chunks :: "chunk list"

definition TfidfIndex_init :: "('v, 'm) tfidf_index" where
  "TfidfIndex_init = \<lparr>vectorizer = None, matrix = None, chunks = []\<rparr>"

text \<open>
  \<open>TfidfIndex.build\<close>, returning the object after the call and the exception, if any.
  The assignments happen in the order of the source: when the fit raises, the chunks and
  the (unfitted) vectorizer have been replaced and the matrix has not.
\<close>

definition TfidfIndex_build ::
  "('v, 'm) library \<Rightarrow> ('v, 'm) tfidf_index \<Rightarrow> chunk list \<Rightarrow> ('v, 'm) tfidf_index \<times> error option"
where
  "TfidfIndex_build L self cs =
     (let self1 = self\<lparr>chunks := cs\<rparr>;
          docs = map chunk_text cs;
          self2 = self1\<lparr>vectorizer := Some Unfitted\<rparr>
      in case fit_transform L docs of
           Inl msg \<Rightarrow> (self2, Some (ValueError msg))
         | Inr (v, m) \<Rightarrow> (self2\<lparr>vectorizer := Some (Fitted v), matrix := Some m\<rparr>, None))"

text \<open>\<open>[(self.chunks[i], float(sims[i])) for i in idxs]\<close>, an index out of range raising.\<close>

fun hits_at :: "chunk list \<Rightarrow> real list \<Rightarrow> nat list \<Rightarrow> error + (chunk \<times> real) list" where
  "hits_at cs sims [] = Inr []"
| "hits_at cs sims (i # js) =
     (if i < length cs \<and> i < length sims
      then (case hits_at cs sims js of
              Inl e \<Rightarrow> Inl e
            | Inr hs \<Rightarrow> Inr ((cs ! i, sims ! i) # hs))
      else Inl IndexError)"

text \<open>\<open>TfidfIndex.search\<close>\<close>

definition TfidfIndex_search ::
  "('v, 'm) library \<Rightarrow> ('v, 'm) tfidf_index \<Rightarrow> string \<Rightarrow> int \<Rightarrow> error + (chunk \<times> real) list"
where
  "TfidfIndex_search L self query k =
     (case (vectorizer self, matrix self) of
        (Some vz, Some m) \<Rightarrow>
          (case vz of
             Unfitted \<Rightarrow> Inl NotFittedError
           | Fitted v \<Rightarrow>
               (let sims = query_sims L v m query;
                    idxs = py_slice (argsort L (map uminus sims)) 0 k
                in hits_at (chunks self) sims idxs))
      | _ \<Rightarrow> Inl (AssertionError ''Index not built''))"


section \<open>OfflineAnswerer\<close>

record offline_answerer =
  max_context_chars :: int

definition OfflineAnswerer_init :: "int \<Rightarrow> offline_answerer" where
  "OfflineAnswerer_init m = \<lparr>max_context_chars = m\<rparr>"

text \<open>
  The first loop of \<open>answer\<close>: the stripped chunk texts are appended to the context,
  joined by newlines, until one would exceed the budget; the loop stops there.
\<close>

fun build_context ::
  "int \<Rightarrow> (chunk \<times> real) list \<Rightarrow> string \<Rightarrow> (chunk \<times> real) list
     \<Rightarrow> string \<times> (chunk \<times> real) list"
where
  "build_context m [] context chosen = (context, chosen)"
| "build_context m (h # hits) context chosen =
     (let snippet = strip (chunk_text (fst h))
      in if int (length context) + int (length snippet) + 1 > m then (context, chosen)
         else build_context m hits
                (context @ (if context \<noteq> [] then ''\<newline>'' else []) @ snippet)
                (chosen @ [h]))"

text \<open>
  \<open>round(0.2 * n)\<close> for a natural number \<open>n\<close>. The fractional part of \<open>n / 5\<close> is one of
  0, .2, .4, .6, .8, so no tie arises and the float product rounds as the exact one.
\<close>

definition round_fifth :: "nat \<Rightarrow> nat" where
  "round_fifth n = (2 * n + 5) div 10"

text \<open>\<open>max(1, round(0.2 * max(len(terms), 1)))\<close>\<close>

definition overlap_threshold :: "string set \<Rightarrow> nat" where
  "overlap_threshold terms = max 1 (round_fifth (max (card terms) 1))"

text \<open>The test of the second loop: the sentence shares enough tokens with the query.\<close>

definition meets_threshold :: "string set \<Rightarrow> string \<Rightarrow> bool" where
  "meets_threshold terms sent =
     (let toks = set (findall_words (lower sent))
      in card (terms \<inter> toks) \<ge> overlap_threshold terms)"

text \<open>The inner loop: the first chosen chunk whose text contains the stripped sentence.\<close>

definition attribute_sentence :: "(chunk \<times> real) list \<Rightarrow> string \<Rightarrow> (string \<times> chunk) list" where
  "attribute_sentence chosen sent =
     (case find (\<lambda>h. strip sent \<noteq> [] \<and> contains (chunk_text (fst h)) (strip sent)) chosen of
        None \<Rightarrow> []
      | Some h \<Rightarrow> [(strip sent, fst h)])"

definition pick_sentences ::
  "string set \<Rightarrow> (chunk \<times> real) list \<Rightarrow> string list \<Rightarrow> (string \<times> chunk) list"
where
  "pick_sentences terms chosen sentences =
     concat (map (\<lambda>sent. if meets_threshold terms sent then attribute_sentence chosen sent
                          else []) sentences)"

text \<open>
  The fallback: \<open>chosen[0]\<close> raises \<open>IndexError\<close> on an empty list, and so would \<open>[0]\<close> on
  an empty split.
\<close>

definition fallback :: "(chunk \<times> real) list \<Rightarrow> error + (string \<times> chunk) list" where
  "fallback chosen =
     (case chosen of
        [] \<Rightarrow> Inl IndexError
      | h # _ \<Rightarrow>
          (case split_sentences (strip (chunk_text (fst h))) of
             [] \<Rightarrow> Inl IndexError
           | s # _ \<Rightarrow> Inr [(s, fst h)]))"

definition cite :: "chunk \<Rightarrow> string" where
  "cite ch = ''['' @ doc_id ch @ ''#'' @ str_int (chunk_id ch) @ '']''"

definition footer :: string where
  "footer = ''(This answer was composed from retrieved local text with citations.)''"

definition render :: "(string \<times> chunk) list \<Rightarrow> string" where
  "render picked =
     ''Answer (offline):\<newline>'' @
     join ''\<newline>'' (map (\<lambda>p. ''- '' @ fst p @ '' '' @ cite (snd p)) (py_slice picked 0 5)) @
     ''\<newline>\<newline>'' @ footer"

definition nothing_found :: string where
  "nothing_found = ''I couldn't find anything relevant in the local corpus.''"

text \<open>\<open>OfflineAnswerer.answer\<close>\<close>

definition OfflineAnswerer_answer ::
  "offline_answerer \<Rightarrow> string \<Rightarrow> (chunk \<times> real) list \<Rightarrow> error + string"
where
  "OfflineAnswerer_answer self query hits =
     (if hits = [] then Inr nothing_found
      else
        (let (context, chosen) = build_context (max_context_chars self) hits [] [];
             terms = set (findall_words (lower query));
             sentences = split_sentences context;
             picked = pick_sentences terms chosen sentences
         in case (if picked = [] then fallback chosen else Inr picked) of
              Inl e \<Rightarrow> Inl e
            | Inr picked' \<Rightarrow> Inr (render picked')))"

section \<open>OpenAIAnswerer\<close>

record openai_answerer =
  model :: string
  api_key :: string

definition key_not_set :: string where
  "key_not_set = ''OPENAI_API_KEY not set. Use OfflineAnswerer or set the key.''"

text \<open>
  \<open>OpenAIAnswerer.__init__\<close>, over the process environment. \<open>not self.api_key\<close> holds for
  \<open>None\<close> and for the empty string.
\<close>

definition OpenAIAnswerer_init :: "(string \<rightharpoonup> string) \<Rightarrow> string \<Rightarrow> error + openai_answerer" where
  "OpenAIAnswerer_init env mdl =
     (case env ''OPENAI_API_KEY'' of
        None \<Rightarrow> Inl (RuntimeError key_not_set)
      | Some key \<Rightarrow>
          if key = [] then Inl (RuntimeError key_not_set)
          else Inr \<lparr>model = mdl, api_key = key\<rparr>)"

definition system_prompt :: string where
  "system_prompt =
     ''You are a helpful assistant. Answer using ONLY the provided context. '' @
     ''Cite sources inline like [doc#chunk]. If information is missing, say so.''"

text \<open>\<open>OpenAIAnswerer.answer\<close>\<close>

definition OpenAIAnswerer_answer ::
  "('v, 'm) library \<Rightarrow> openai_answerer \<Rightarrow> string \<Rightarrow> (chunk \<times> real) list \<Rightarrow> error + string"
where
  "OpenAIAnswerer_answer L self query hits =
     (let context_parts = map (\<lambda>h. cite (fst h) @ ''\<newline>'' @ strip (chunk_text (fst h))) hits;
          context = join ''\<newline>\<newline>'' (py_slice context_parts 0 6);
          user = ''Question: '' @ query @ ''\<newline>\<newline>Context:\<newline>'' @ context
      in case chat_completions L (api_key self) (model self) system_prompt user of
           Inl msg \<Rightarrow> Inl (HTTPError msg)
         | Inr content \<Rightarrow> Inr (strip content))"

section \<open>RAGPipeline\<close>

datatype answerer = Offline offline_answerer | OpenAI openai_answerer

record ('v, 'm) rag_pipeline =
  corpus :: local_corpus
  index :: "('v, 'm) tfidf_index"
  answerer :: answerer

record source_dict =
  doc :: string
  chunk :: int
  score :: real
  preview :: string

record query_result =
  answer :: string
  sources :: "source_dict list"

definition no_txt_files :: string where
  "no_txt_files = ''No .txt files found in data directory.''"

text \<open>\<open>RAGPipeline.__init__\<close>, with the defaults of the classes it constructs.\<close>

definition RAGPipeline_init ::
  "(string \<rightharpoonup> string) \<Rightarrow> string \<Rightarrow> bool \<Rightarrow> string \<Rightarrow> error + ('v, 'm) rag_pipeline"
where
  "RAGPipeline_init env d use_openai mdl =
     (case (if use_openai
            then (case OpenAIAnswerer_init env mdl of Inl e \<Rightarrow> Inl e | Inr a \<Rightarrow> Inr (OpenAI a))
            else Inr (Offline (OfflineAnswerer_init 2000))) of
        Inl e \<Rightarrow> Inl e
      | Inr a \<Rightarrow>
          Inr \<lparr>corpus = LocalCorpus_init d 600 80, index = TfidfIndex_init, answerer = a\<rparr>)"

text \<open>\<open>RAGPipeline.build\<close>: the pipeline after the call and the exception, if any.\<close>

definition RAGPipeline_build ::
  "('v, 'm) library \<Rightarrow> file_system \<Rightarrow> ('v, 'm) rag_pipeline
     \<Rightarrow> ('v, 'm) rag_pipeline \<times> error option"
where
  "RAGPipeline_build L fs self =
     (case LocalCorpus_load (corpus self) fs of
        Inl e \<Rightarrow> (self, Some e)
      | Inr cs \<Rightarrow>
          if cs = [] then (self, Some (RuntimeError no_txt_files))
          else (let r = TfidfIndex_build L (index self) cs
                in (self\<lparr>index := fst r\<rparr>, snd r)))"

text \<open>\<open>RAGPipeline.query\<close>\<close>

definition RAGPipeline_query ::
  "('v, 'm) library \<Rightarrow> ('v, 'm) rag_pipeline \<Rightarrow> string \<Rightarrow> int \<Rightarrow> error + query_result"
where
  "RAGPipeline_query L self q k =
     (case TfidfIndex_search L (index self) q k of
        Inl e \<Rightarrow> Inl e
      | Inr hits \<Rightarrow>
          (case (case answerer self of
                   Offline a \<Rightarrow> OfflineAnswerer_answer a q hits
                 | OpenAI a \<Rightarrow> OpenAIAnswerer_answer L a q hits) of
             Inl e \<Rightarrow> Inl e
           | Inr ans \<Rightarrow>
               Inr \<lparr>answer = ans,
                    sources = map (\<lambda>h. \<lparr>doc = doc_id (fst h), chunk = chunk_id (fst h),
                                        score = snd h,
                                        preview = py_slice (chunk_text (fst h)) 0 160\<rparr>) hits\<rparr>))"

section \<open>A small library to run the model on\<close>

text \<open>
  A stand-in for the libraries, used to evaluate the pipeline on concrete inputs. It meets
  \<open>library_contract\<close>. The fit accepts any non-empty document list and keeps the
  documents as the matrix; the similarity of a document is the number of distinct word
  tokens it shares with the query; the argsort is an insertion sort of the indices.
\<close>

definition stable_argsort :: "real list \<Rightarrow> nat list" where
  "stable_argsort xs = sort_key (\<lambda>i. xs ! i) [0..<length xs]"

definition toy_fit :: "string list \<Rightarrow> string + (unit \<times> string list)" where
  "toy_fit docs = (if docs = [] then Inl ''empty vocabulary'' else Inr ((), docs))"

definition toy_sims :: "unit \<Rightarrow> string list \<Rightarrow> string \<Rightarrow> real list" where
  "toy_sims v m q =
     map (\<lambda>d. real (card (set (findall_words (lower q)) \<inter> set (findall_words (lower d))))) m"

definition toy_library :: "(unit, string list) library" where
  "toy_library =
     \<lparr>fit_transform = toy_fit, query_sims = toy_sims, argsort = stable_argsort,
      chat_completions = (\<lambda>key mdl sys user. Inl ''no network'')\<rparr>"

section \<open>Auxiliary facts\<close>

subsection \<open>Sorting indices\<close>

lemma stable_argsort_contract: "argsort_contract stable_argsort"
  unfolding argsort_contract_def stable_argsort_def by auto

lemma toy_library_contract: "library_contract toy_library"
  unfolding library_contract_def toy_library_def
  by (auto simp: stable_argsort_contract toy_fit_def toy_sims_def split: if_splits)

lemma argsort_length:
  assumes "argsort_contract f"
  shows "length (f xs) = length xs"
proof -
  from assms have d: "distinct (f xs)" and s: "set (f xs) = {..<length xs}"
    by (simp_all add: argsort_contract_def)
  from d have "length (f xs) = card (set (f xs))" by (simp add: distinct_card)
  with s show ?thesis by simp
qed

lemma argsort_bound:
  assumes "argsort_contract f" and "i \<in> set (f xs)"
  shows "i < length xs"
  using assms by (auto simp: argsort_contract_def)

subsection \<open>Slices, ranges and normalisation\<close>

lemma py_slice_from_0: "py_slice xs 0 k = take (slice_bound (length xs) k) xs"
  by (simp add: py_slice_def slice_bound_def)

lemma py_slice_window:
  "i < length t \<Longrightarrow> 0 \<le> w \<Longrightarrow> py_slice t (int i) (int i + w) = take (nat w) (drop i t)"
  by (auto simp: py_slice_def slice_bound_def min_def nat_add_distrib)

text \<open>The elements of a range in closed form.\<close>

lemma py_range_closed:
  "0 < step \<Longrightarrow>
   py_range i stop step = map (\<lambda>j. i + j * step) [0..<(stop - i + step - 1) div step]"
proof (induction i stop step rule: py_range.induct)
  case (1 i stop step)
  show ?case
  proof (cases "i < stop")
    case False
    with 1 show ?thesis by (simp add: py_range.simps [of i stop step])
  next
    case True
    with 1 have IH: "py_range (i + step) stop step =
        map (\<lambda>j. i + step + j * step) [0..<(stop - (i + step) + step - 1) div step]"
      by simp
    define a where "a = stop - i - 1"
    have n: "(stop - i + step - 1) div step = Suc ((stop - (i + step) + step - 1) div step)"
    proof -
      have "stop - i + step - 1 = a + step" using True by (simp add: a_def)
      moreover have "(a + step) div step = Suc (a div step)" using 1(2) by simp
      moreover have "(stop - (i + step) + step - 1) div step = a div step"
      proof (cases "i + step \<le> stop")
        case True
        then have "stop - (i + step) + step - 1 = a" by (simp add: a_def)
        then show ?thesis by simp
      next
        case False
        then have "stop - (i + step) + step - 1 = step - 1" and "a < step"
          using True by (simp_all add: a_def)
        then show ?thesis using 1(2) by simp
      qed
      ultimately show ?thesis by simp
    qed
    have "py_range i stop step = i # py_range (i + step) stop step"
      using True 1(2) by (simp add: py_range.simps [of i stop step])
    also have "\<dots> = i # map (\<lambda>j. i + step + j * step) [0..<(stop - (i + step) + step - 1) div step]"
      by (simp add: IH)
    also have "\<dots> = map (\<lambda>j. i + j * step) [0..<Suc ((stop - (i + step) + step - 1) div step)]"
      by (simp add: upt_rec [of 0] map_Suc_upt [symmetric] del: upt_Suc) 
    finally show ?thesis unfolding n .
  qed
qed

lemma sub_ws_no_space: "\<forall>c\<in>set s. \<not> is_space c \<Longrightarrow> sub_ws b s = s"
  by (induction s arbitrary: b) auto

lemma strip_no_space: "\<forall>c\<in>set s. \<not> is_space c \<Longrightarrow> strip s = s"
proof -
  assume a: "\<forall>c\<in>set s. \<not> is_space c"
  have d: "\<And>xs. \<forall>c\<in>set xs. \<not> is_space c \<Longrightarrow> dropWhile is_space xs = xs"
    by (case_tac xs) auto
  from a show ?thesis by (simp add: strip_def d)
qed

lemma normalize_no_space: "\<forall>c\<in>set s. \<not> is_space c \<Longrightarrow> normalize s = s"
  by (simp add: normalize_def sub_ws_no_space strip_no_space)

lemma strip_replicate: "\<not> is_space c \<Longrightarrow> strip (replicate n c) = replicate n c"
  by (simp add: strip_def dropWhile_replicate)

subsection \<open>The index\<close>

lemma hits_at_in_range:
  "\<forall>i\<in>set idxs. i < length cs \<and> i < length sims \<Longrightarrow>
   hits_at cs sims idxs = Inr (map (\<lambda>i. (cs ! i, sims ! i)) idxs)"
  by (induction idxs) auto

lemma build_success:
  assumes "fit_transform L (map chunk_text cs) = Inr (v, m)"
  shows "TfidfIndex_build L idx cs =
           (idx\<lparr>vectorizer := Some (Fitted v), matrix := Some m, chunks := cs\<rparr>, None)"
  using assms by (simp add: TfidfIndex_build_def)

lemma build_failure:
  assumes "fit_transform L (map chunk_text cs) = Inl msg"
  shows "TfidfIndex_build L idx cs =
           (idx\<lparr>vectorizer := Some Unfitted, chunks := cs\<rparr>, Some (ValueError msg))"
  using assms by (simp add: TfidfIndex_build_def)

lemma build_result_cases:
  "(\<exists>v m. fit_transform L (map chunk_text cs) = Inr (v, m) \<and> snd (TfidfIndex_build L idx cs) = None)
   \<or> (\<exists>msg. fit_transform L (map chunk_text cs) = Inl msg
         \<and> snd (TfidfIndex_build L idx cs) = Some (ValueError msg))"
  by (cases "fit_transform L (map chunk_text cs)") (auto simp: TfidfIndex_build_def)

text \<open>
  The result of \<open>search\<close> on a built index: the chunks and similarities at the first
  positions of the sorted index list.
\<close>

lemma search_after_build:
  assumes L: "library_contract L"
    and fit: "fit_transform L (map chunk_text cs) = Inr (v, m)"
  shows "TfidfIndex_search L (fst (TfidfIndex_build L idx cs)) q k =
           Inr (map (\<lambda>i. (cs ! i, query_sims L v m q ! i))
                  (take (slice_bound (length cs) k) (argsort L (map uminus (query_sims L v m q)))))"
proof -
  let ?sims = "query_sims L v m q"
  let ?perm = "argsort L (map uminus ?sims)"
  from L have ac: "argsort_contract (argsort L)" by (simp add: library_contract_def)
  from L fit have len: "length ?sims = length cs" by (simp add: library_contract_def)
  have plen: "length ?perm = length cs" using argsort_length [OF ac] len by simp
  have "\<forall>i\<in>set (take (slice_bound (length cs) k) ?perm). i < length cs \<and> i < length ?sims"
    using argsort_bound [OF ac] len by (fastforce dest: in_set_takeD)
  then have "hits_at cs ?sims (take (slice_bound (length cs) k) ?perm) =
      Inr (map (\<lambda>i. (cs ! i, ?sims ! i)) (take (slice_bound (length cs) k) ?perm))"
    by (rule hits_at_in_range)
  then show ?thesis
    by (simp add: build_success [OF fit] TfidfIndex_search_def py_slice_from_0 plen Let_def)
qed

text \<open>
  The hits are ranked by similarity: every chunk whose similarity is strictly higher than
  that of a returned chunk is returned as well, earlier in the list.
\<close>

lemma search_higher_score_first:
  assumes L: "library_contract L"
    and fit: "fit_transform L (map chunk_text cs) = Inr (v, m)"
  shows "\<exists>idxs. TfidfIndex_search L (fst (TfidfIndex_build L idx cs)) q k =
             Inr (map (\<lambda>i. (cs ! i, query_sims L v m q ! i)) idxs)
           \<and> distinct idxs
           \<and> (\<forall>a<length idxs. idxs ! a < length cs)
           \<and> (\<forall>a j. a < length idxs \<and> j < length cs
                  \<and> query_sims L v m q ! (idxs ! a) < query_sims L v m q ! j
                \<longrightarrow> (\<exists>b<a. idxs ! b = j))"
proof -
  let ?sims = "query_sims L v m q"
  let ?perm = "argsort L (map uminus ?sims)"
  let ?n = "slice_bound (length cs) k"
  let ?idxs = "take ?n ?perm"
  from L have ac: "argsort_contract (argsort L)" by (simp add: library_contract_def)
  from L fit have len: "length ?sims = length cs" by (simp add: library_contract_def)
  have plen: "length ?perm = length cs" using argsort_length [OF ac] len by simp
  have pset: "set ?perm = {..<length cs}" using ac len by (simp add: argsort_contract_def)
  have pdist: "distinct ?perm" using ac by (simp add: argsort_contract_def)
  have psorted: "sorted (map (\<lambda>i. map uminus ?sims ! i) ?perm)"
    using ac by (simp add: argsort_contract_def)
  have res: "TfidfIndex_search L (fst (TfidfIndex_build L idx cs)) q k =
      Inr (map (\<lambda>i. (cs ! i, ?sims ! i)) ?idxs)"
    by (rule search_after_build [OF L fit])
  have d: "distinct ?idxs" using pdist by simp
  have bnd: "\<forall>a<length ?idxs. ?idxs ! a < length cs"
  proof (intro allI impI)
    fix a assume "a < length ?idxs"
    then have "?idxs ! a \<in> set ?perm" by (metis in_set_takeD nth_mem)
    with pset show "?idxs ! a < length cs" by simp
  qed
  have top: "\<forall>a j. a < length ?idxs \<and> j < length cs \<and> ?sims ! (?idxs ! a) < ?sims ! j
                \<longrightarrow> (\<exists>b<a. ?idxs ! b = j)"
  proof (intro allI impI)
    fix a j
    assume h: "a < length ?idxs \<and> j < length cs \<and> ?sims ! (?idxs ! a) < ?sims ! j"
    then have a: "a < length ?idxs" and j: "j < length cs"
      and lt: "?sims ! (?idxs ! a) < ?sims ! j" by blast+
    from a have a': "a < length ?perm" and an: "a < ?n" by simp_all
    from j pset have "j \<in> set ?perm" by simp
    then obtain b where b: "b < length ?perm" and pb: "?perm ! b = j"
      by (auto simp: in_set_conv_nth)
    have pa: "?idxs ! a = ?perm ! a" using an by simp
    have pa_lt: "?perm ! a < length cs" using a' pset nth_mem by fastforce
    have "b < a"
    proof (rule ccontr)
      assume "\<not> b < a"
      then have "a \<le> b" by simp
      with psorted b have "map (\<lambda>i. map uminus ?sims ! i) ?perm ! a
          \<le> map (\<lambda>i. map uminus ?sims ! i) ?perm ! b"
        by (simp add: sorted_iff_nth_mono del: nth_map)
      then have "- (?sims ! (?perm ! a)) \<le> - (?sims ! j)"
        using a' b pb pa_lt j len by simp
      with lt pa show False by simp
    qed
    moreover from \<open>b < a\<close> an have "?idxs ! b = ?perm ! b" by simp
    ultimately show "\<exists>b<a. ?idxs ! b = j" using pb by auto
  qed
  from res d bnd top show ?thesis by blast
qed

lemma search_not_built:
  assumes "vectorizer idx = None \<or> matrix idx = None"
  shows "TfidfIndex_search L idx q k = Inl (AssertionError ''Index not built'')"
  using assms by (auto simp: TfidfIndex_search_def split: option.splits)

lemma failed_build_keeps_matrix:
  assumes "fit_transform L (map chunk_text cs) = Inl msg"
  shows "matrix (fst (TfidfIndex_build L idx cs)) = matrix idx"
  by (simp add: build_failure [OF assms])

lemma failed_builds_keep_matrix:
  assumes "\<forall>cs\<in>set css. \<exists>msg. fit_transform L (map chunk_text cs) = Inl msg"
  shows "matrix (foldl (\<lambda>i cs. fst (TfidfIndex_build L i cs)) idx css) = matrix idx"
  using assms
proof (induction css arbitrary: idx)
  case Nil
  then show ?case by simp
next
  case (Cons cs css)
  from Cons.prems obtain msg where f: "fit_transform L (map chunk_text cs) = Inl msg"
    by auto
  from Cons.prems have rest: "\<forall>cs\<in>set css. \<exists>msg. fit_transform L (map chunk_text cs) = Inl msg"
    by simp
  show ?case
    using Cons.IH [OF rest, of "fst (TfidfIndex_build L idx cs)"]
      failed_build_keeps_matrix [OF f, of idx]
    by simp
qed

lemma toy_build_two:
  "TfidfIndex_build toy_library idx
     [\<lparr>doc_id = ''a.txt'', chunk_id = 0, chunk_text = ''RAG retrieves documents.''\<rparr>,
      \<lparr>doc_id = ''b.txt'', chunk_id = 0, chunk_text = ''TF-IDF is a retrieval method.''\<rparr>]
   = (idx\<lparr>vectorizer := Some (Fitted ()),
           matrix := Some [''RAG retrieves documents.'', ''TF-IDF is a retrieval method.''],
           chunks := [\<lparr>doc_id = ''a.txt'', chunk_id = 0, chunk_text = ''RAG retrieves documents.''\<rparr>,
      \<lparr>doc_id = ''b.txt'', chunk_id = 0, chunk_text = ''TF-IDF is a retrieval method.''\<rparr>]\<rparr>, None)"
  by (simp add: TfidfIndex_build_def toy_library_def toy_fit_def)

subsection \<open>The corpus\<close>

text \<open>The windows of \<open>_split_text\<close> under the default configuration.\<close>

lemma split_text_default:
  fixes s :: string
  defines "t \<equiv> normalize s"
  shows "LocalCorpus_split_text (LocalCorpus_init d 600 80) s =
           map (\<lambda>j. take 600 (drop (520 * j) t)) [0..<(length t + 519) div 520]"
proof (cases "t = []")
  case True
  then show ?thesis by (simp add: LocalCorpus_split_text_def t_def [symmetric])
next
  case False
  let ?N = "(length t + 519) div 520"
  have r: "py_range 0 (length t) 520 = map (\<lambda>j. j * 520) [0..<?N]"
    using py_range_closed [of 520 0 "length t"] by (simp add: add.commute)
  have w: "py_slice t (int (j * 520)) (int (j * 520) + 600) = take 600 (drop (520 * j) t)"
    if "j < ?N" for j
  proof -
    from that have "j * 520 < length t" by (simp add: less_mult_imp_div_less)
    then show ?thesis
      using py_slice_window [of "j * 520" t 600] by (simp add: mult.commute)
  qed
  have "LocalCorpus_split_text (LocalCorpus_init d 600 80) s =
      map (\<lambda>i. py_slice t (int i) (int i + 600)) (py_range 0 (length t) 520)"
    using False by (simp add: LocalCorpus_split_text_def t_def [symmetric] LocalCorpus_init_def)
  also have "\<dots> = map (\<lambda>j. py_slice t (int (j * 520)) (int (j * 520) + 600)) [0..<?N]"
    unfolding r map_map o_def ..
  also have "\<dots> = map (\<lambda>j. take 600 (drop (520 * j) t)) [0..<?N]"
    by (rule map_cong [OF refl], rule w, simp)
  finally show ?thesis .
qed

lemma file_chunks_default:
  "file_chunks (LocalCorpus_init d 600 80) (name, s) =
     map (\<lambda>j. \<lparr>doc_id = name, chunk_id = int j,
                 chunk_text = take 600 (drop (520 * j) (normalize s))\<rparr>)
       [0..<(length (normalize s) + 519) div 520]"
  by (simp add: file_chunks_def split_text_default enumerate_eq_zip map_zip_map2
      zip_same_conv_map)

lemma load_no_eligible:
  assumes "\<forall>f\<in>set (fs (data_dir c)). \<not> matches_txt (fst f)"
  shows "LocalCorpus_load c fs = Inr []"
proof -
  from assms have "filter (\<lambda>f. matches_txt (fst f)) (fs (data_dir c)) = []"
    by (simp add: filter_empty_conv)
  then show ?thesis by (simp add: LocalCorpus_load_def)
qed

subsection \<open>The offline answerer\<close>

lemma build_context_chosen:
  "\<exists>ys. snd (build_context m hits ctx chosen) = chosen @ ys"
proof (induction hits arbitrary: ctx chosen)
  case Nil
  then show ?case by simp
next
  case (Cons h hits)
  show ?case
  proof (cases "int (length ctx) + int (length (strip (chunk_text (fst h)))) + 1 > m")
    case True
    then show ?thesis by simp
  next
    case False
    from Cons.IH [of "ctx @ (if ctx \<noteq> [] then ''\<newline>'' else []) @ strip (chunk_text (fst h))"
        "chosen @ [h]"]
    obtain ys where "snd (build_context m hits
        (ctx @ (if ctx \<noteq> [] then ''\<newline>'' else []) @ strip (chunk_text (fst h)))
        (chosen @ [h])) = (chosen @ [h]) @ ys" by blast
    with False show ?thesis by (simp add: Let_def)
  qed
qed

lemma build_context_top_fits:
  assumes "int (length (strip (chunk_text (fst h)))) \<le> m - 1"
  shows "\<exists>ys. snd (build_context m (h # hits) [] []) = h # ys"
proof -
  from build_context_chosen [of m hits "strip (chunk_text (fst h))" "[h]"]
  obtain ys where "snd (build_context m hits (strip (chunk_text (fst h))) [h]) = [h] @ ys"
    by blast
  with assms show ?thesis by (simp add: Let_def)
qed

lemma build_context_top_overflows:
  assumes "int (length (strip (chunk_text (fst h)))) + 1 > m"
  shows "build_context m (h # hits) [] [] = ([], [])"
  using assms by simp

lemma split_run_nonempty: "split_run cur b s \<noteq> []"
  by (induction s arbitrary: cur b) auto

lemma split_sentences_nonempty: "split_sentences s \<noteq> []"
  by (simp add: split_sentences_def split_run_nonempty)

lemma fallback_top:
  "fallback (h # ys) = Inr [(hd (split_sentences (strip (chunk_text (fst h)))), fst h)]"
  using split_sentences_nonempty [of "strip (chunk_text (fst h))"]
  by (simp add: fallback_def split: list.splits)

lemma pick_sentences_no_chosen: "pick_sentences terms [] sentences = []"
  by (auto simp: pick_sentences_def attribute_sentence_def)

lemma pick_sentences_none_meet:
  assumes "\<forall>sent\<in>set sentences. \<not> meets_threshold terms sent"
  shows "pick_sentences terms chosen sentences = []"
  using assms by (simp add: pick_sentences_def)

lemma meets_threshold_empty: "\<not> meets_threshold terms []"
  by (simp add: meets_threshold_def overlap_threshold_def findall_words_def lower_def)

lemma answer_top_overflows:
  assumes "int (length (strip (chunk_text (fst h)))) + 1 > max_context_chars a"
  shows "OfflineAnswerer_answer a q (h # hits) = Inl IndexError"
  using assms
  by (simp add: OfflineAnswerer_answer_def pick_sentences_no_chosen fallback_def)

lemma answer_top_fits:
  assumes "int (length (strip (chunk_text (fst h)))) \<le> max_context_chars a - 1"
  shows "\<exists>s. OfflineAnswerer_answer a q (h # hits) = Inr s"
proof -
  obtain ctx chosen where bc: "build_context (max_context_chars a) (h # hits) [] [] = (ctx, chosen)"
    by (cases "build_context (max_context_chars a) (h # hits) [] []")
  from build_context_top_fits [OF assms, of hits] bc obtain ys where ch: "chosen = h # ys"
    by auto
  show ?thesis
    by (simp add: OfflineAnswerer_answer_def bc ch fallback_top Let_def del: build_context.simps)
qed

text \<open>
  When the top-ranked chunk fits the budget and no sentence of the context meets the
  threshold, the answer is the first sentence of that chunk with its citation.
\<close>

lemma answer_fallback_when_top_fits:
  assumes fits: "int (length (strip (chunk_text (fst h)))) \<le> max_context_chars a - 1"
    and none: "\<forall>sent\<in>set (split_sentences (fst (build_context (max_context_chars a) (h # hits) [] []))).
                 \<not> meets_threshold (set (findall_words (lower q))) sent"
  shows "OfflineAnswerer_answer a q (h # hits) =
           Inr (''Answer (offline):\<newline>- '' @
                hd (split_sentences (strip (chunk_text (fst h)))) @ '' '' @ cite (fst h) @
                ''\<newline>\<newline>'' @ footer)"
proof -
  obtain ctx chosen where bc: "build_context (max_context_chars a) (h # hits) [] [] = (ctx, chosen)"
    by (cases "build_context (max_context_chars a) (h # hits) [] []")
  from build_context_top_fits [OF fits, of hits] bc obtain ys where ch: "chosen = h # ys"
    by auto
  from none bc have "pick_sentences (set (findall_words (lower q))) chosen (split_sentences ctx) = []"
    by (simp add: pick_sentences_none_meet del: build_context.simps)
  then show ?thesis
    by (simp add: OfflineAnswerer_answer_def bc ch fallback_top render_def py_slice_def
        slice_bound_def Let_def del: build_context.simps)
qed

section \<open>The claims\<close>

subsection \<open>C1\<close>

text \<open>
Claim C1. With libraries that meet their contract, on an index built successfully over
  a non-empty chunk list and for \<open>k > 0\<close>, \<open>search\<close> returns a list of (chunk, score) pairs
  whose length is the minimum of \<open>k\<close> and the number of chunks, and the scores are in
  non-increasing order.
\<close>

theorem search_length_and_order:
  assumes "library_contract L"
    and "snd (TfidfIndex_build L idx cs) = None"
    and "cs \<noteq> []"
    and "0 < k"
  shows "\<exists>hits. TfidfIndex_search L (fst (TfidfIndex_build L idx cs)) q k = Inr hits
           \<and> length hits = min (nat k) (length cs)
           \<and> sorted_wrt (\<ge>) (map snd hits)"
proof -
  from assms(2) obtain v m where fit: "fit_transform L (map chunk_text cs) = Inr (v, m)"
    using build_result_cases [of L cs idx] by auto
  let ?sims = "query_sims L v m q"
  let ?perm = "argsort L (map uminus ?sims)"
  let ?idxs = "take (slice_bound (length cs) k) ?perm"
  let ?hits = "map (\<lambda>i. (cs ! i, ?sims ! i)) ?idxs"
  from assms(1) have ac: "argsort_contract (argsort L)" by (simp add: library_contract_def)
  from assms(1) fit have len: "length ?sims = length cs" by (simp add: library_contract_def)
  have plen: "length ?perm = length cs" using argsort_length [OF ac] len by simp
  have res: "TfidfIndex_search L (fst (TfidfIndex_build L idx cs)) q k = Inr ?hits"
    by (rule search_after_build [OF assms(1) fit])
  have l: "length ?hits = min (nat k) (length cs)"
    using \<open>0 < k\<close> plen by (simp add: slice_bound_def)
  have "sorted (map (\<lambda>i. map uminus ?sims ! i) ?perm)"
    using ac by (simp add: argsort_contract_def)
  moreover have "i < length ?sims" if "i \<in> set ?perm" for i
    using argsort_bound [OF ac, of i "map uminus ?sims"] that by simp
  then have "map (\<lambda>i. map uminus ?sims ! i) ?perm = map (\<lambda>i. - (?sims ! i)) ?perm"
    by (intro map_cong [OF refl]) simp
  ultimately have "sorted (map (\<lambda>i. - (?sims ! i)) ?perm)"
    by simp
  then have "sorted_wrt (\<lambda>i j. ?sims ! i \<ge> ?sims ! j) ?perm"
    by (simp add: sorted_map)
  then have "sorted_wrt (\<lambda>i j. ?sims ! i \<ge> ?sims ! j) ?idxs"
    by (rule sorted_wrt_take)
  then have "sorted_wrt (\<ge>) (map snd ?hits)"
    by (simp add: sorted_wrt_map)
  with res l show ?thesis by blast
qed

text \<open>The theorem on an index of two chunks, asked for three hits: two come back.\<close>

theorem search_length_and_order_witness:
  "\<exists>hits. TfidfIndex_search toy_library
       (fst (TfidfIndex_build toy_library TfidfIndex_init
          [\<lparr>doc_id = ''a.txt'', chunk_id = 0, chunk_text = ''RAG retrieves documents.''\<rparr>,
           \<lparr>doc_id = ''b.txt'', chunk_id = 0, chunk_text = ''TF-IDF is a retrieval method.''\<rparr>]))
       ''What does RAG do?'' 3 = Inr hits
     \<and> length hits = 2 \<and> sorted_wrt (\<ge>) (map snd hits)"
proof -
  let ?cs = "[\<lparr>doc_id = ''a.txt'', chunk_id = 0, chunk_text = ''RAG retrieves documents.''\<rparr>,
        \<lparr>doc_id = ''b.txt'', chunk_id = 0, chunk_text = ''TF-IDF is a retrieval method.''\<rparr>]"
  have h: "snd (TfidfIndex_build toy_library TfidfIndex_init ?cs) = None"
    by (simp add: toy_build_two)
  have ne: "?cs \<noteq> []" by simp
  have k: "(0::int) < 3" by simp
  from search_length_and_order [OF toy_library_contract h ne k, of "''What does RAG do?''"]
  obtain hits where r: "TfidfIndex_search toy_library
      (fst (TfidfIndex_build toy_library TfidfIndex_init ?cs)) ''What does RAG do?'' 3 = Inr hits"
    and l: "length hits = min (nat 3) (length ?cs)"
    and o: "sorted_wrt (\<ge>) (map snd hits)"
    by blast
  from l have "length hits = 2" by simp
  with r o show ?thesis by blast
qed

subsection \<open>C3\<close>

text \<open>
Claim C3, as amended. \<open>load\<close> has no failure of its own: when no file of the directory
  matches \<open>*.txt\<close> it returns the empty chunk list. The failure is raised one level up, by
  the \<open>build\<close> of the pipeline, as a \<open>RuntimeError\<close> saying that no \<open>.txt\<close> files were found;
  the pipeline is left as it was.
\<close>

theorem load_without_eligible_files:
  assumes "\<forall>f\<in>set (fs (data_dir (corpus p))). \<not> matches_txt (fst f)"
  shows "LocalCorpus_load (corpus p) fs = Inr []
       \<and> RAGPipeline_build L fs p = (p, Some (RuntimeError no_txt_files))"
proof -
  have "LocalCorpus_load (corpus p) fs = Inr []"
    using assms by (rule load_no_eligible)
  then show ?thesis by (simp add: RAGPipeline_build_def)
qed

text \<open>The theorem on a directory whose only file is \<open>notes.md\<close>.\<close>

theorem load_without_eligible_files_witness:
  "LocalCorpus_load (corpus (\<lparr>corpus = LocalCorpus_init ''data'' 600 80, index = TfidfIndex_init,
       answerer = Offline (OfflineAnswerer_init 2000)\<rparr> :: (unit, string list) rag_pipeline)) (\<lambda>d. if d = ''data'' then [(''notes.md'', ''RAG retrieves documents.'')] else []) = Inr []
   \<and> RAGPipeline_build toy_library (\<lambda>d. if d = ''data'' then [(''notes.md'', ''RAG retrieves documents.'')] else []) \<lparr>corpus = LocalCorpus_init ''data'' 600 80, index = TfidfIndex_init,
       answerer = Offline (OfflineAnswerer_init 2000)\<rparr>
       = (\<lparr>corpus = LocalCorpus_init ''data'' 600 80, index = TfidfIndex_init,
       answerer = Offline (OfflineAnswerer_init 2000)\<rparr>, Some (RuntimeError no_txt_files))"
  using load_without_eligible_files [of "(\<lambda>d. if d = ''data'' then [(''notes.md'', ''RAG retrieves documents.'')] else [])" "\<lparr>corpus = LocalCorpus_init ''data'' 600 80, index = TfidfIndex_init,
       answerer = Offline (OfflineAnswerer_init 2000)\<rparr>" toy_library]
  by (simp add: LocalCorpus_init_def matches_txt_def)

text \<open>
The claim as stated, that \<open>load\<close> fails when the directory holds no eligible file, is
  false: on a directory whose only file is \<open>notes.md\<close>, \<open>load\<close> returns the empty list.
\<close>

theorem load_returns_empty_list:
  "LocalCorpus_load (LocalCorpus_init ''data'' 600 80)
     (\<lambda>d. if d = ''data'' then [(''notes.md'', ''RAG retrieves documents.'')] else []) = Inr []"
  by (simp add: LocalCorpus_load_def LocalCorpus_init_def matches_txt_def)

subsection \<open>C4\<close>

text \<open>
Claim C4, as amended. Before any successful build, that is on a new index after any
  number of builds that all failed, \<open>search\<close> fails with the \<open>AssertionError\<close> "Index not
  built", for every \<open>k\<close>, also 0. On an index that has been built, \<open>k = 0\<close> is no error:
  \<open>search\<close> returns the empty list.
\<close>

theorem search_unbuilt_or_zero_k:
  "((\<forall>cs\<in>set css. \<exists>msg. fit_transform L (map chunk_text cs) = Inl msg) \<longrightarrow>
      TfidfIndex_search L (foldl (\<lambda>i cs. fst (TfidfIndex_build L i cs)) TfidfIndex_init css) q k
        = Inl (AssertionError ''Index not built''))
   \<and> (snd (TfidfIndex_build L idx cs) = None \<longrightarrow>
        TfidfIndex_search L (fst (TfidfIndex_build L idx cs)) q 0 = Inr [])"
proof (intro conjI impI)
  assume "\<forall>cs\<in>set css. \<exists>msg. fit_transform L (map chunk_text cs) = Inl msg"
  then have "matrix (foldl (\<lambda>i cs. fst (TfidfIndex_build L i cs)) TfidfIndex_init css)
      = matrix (TfidfIndex_init :: ('a, 'b) tfidf_index)"
    by (rule failed_builds_keep_matrix)
  then have "matrix (foldl (\<lambda>i cs. fst (TfidfIndex_build L i cs)) TfidfIndex_init css) = None"
    by (simp add: TfidfIndex_init_def)
  then show "TfidfIndex_search L (foldl (\<lambda>i cs. fst (TfidfIndex_build L i cs)) TfidfIndex_init css) q k
        = Inl (AssertionError ''Index not built'')"
    by (simp add: search_not_built)
next
  assume "snd (TfidfIndex_build L idx cs) = None"
  then obtain v m where fit: "fit_transform L (map chunk_text cs) = Inr (v, m)"
    using build_result_cases [of L cs idx] by auto
  show "TfidfIndex_search L (fst (TfidfIndex_build L idx cs)) q 0 = Inr []"
    by (simp add: build_success [OF fit] TfidfIndex_search_def py_slice_def slice_bound_def)
qed

text \<open>The theorem after one failed build (of no chunks), and on a built index.\<close>

theorem search_unbuilt_or_zero_k_witness:
  "TfidfIndex_search toy_library
     (foldl (\<lambda>i cs. fst (TfidfIndex_build toy_library i cs)) TfidfIndex_init [[]]) ''rag'' 0
     = Inl (AssertionError ''Index not built'')
   \<and> TfidfIndex_search toy_library
     (fst (TfidfIndex_build toy_library TfidfIndex_init [\<lparr>doc_id = ''a.txt'', chunk_id = 0, chunk_text = ''RAG retrieves documents.''\<rparr>,
      \<lparr>doc_id = ''b.txt'', chunk_id = 0, chunk_text = ''TF-IDF is a retrieval method.''\<rparr>])) ''rag'' 0 = Inr []"
  using search_unbuilt_or_zero_k [of "[[]]" toy_library "''rag''" 0 TfidfIndex_init "[\<lparr>doc_id = ''a.txt'', chunk_id = 0, chunk_text = ''RAG retrieves documents.''\<rparr>,
      \<lparr>doc_id = ''b.txt'', chunk_id = 0, chunk_text = ''TF-IDF is a retrieval method.''\<rparr>]"]
  by (simp add: toy_library_def toy_fit_def TfidfIndex_build_def)

text \<open>
The claim as stated has \<open>search\<close> fail for \<open>k = 0\<close>. On a built index it returns the
  empty list.
\<close>

theorem search_zero_k_returns_empty:
  "TfidfIndex_search toy_library
     (fst (TfidfIndex_build toy_library TfidfIndex_init
        [\<lparr>doc_id = ''a.txt'', chunk_id = 0, chunk_text = ''RAG retrieves documents.''\<rparr>,
         \<lparr>doc_id = ''b.txt'', chunk_id = 0, chunk_text = ''RAG reduces hallucinations.''\<rparr>]))
     ''rag'' 0 = Inr []"
  by code_simp

subsection \<open>C5\<close>

text \<open>
Claim C5, as amended. With \<open>chunk_size = 600\<close> and \<open>chunk_overlap = 80\<close> the chunks of a
  document are the windows \<open>take 600 (drop (520 * j) t)\<close> of its normalized text \<open>t\<close>, for
  \<open>j = 0, 1, \<dots>\<close> below \<open>length t\<close> divided by 520 and rounded up. So consecutive start
  offsets differ by exactly 520, the chunk ids are 0, 1, 2, \<dots> in this order, every
  window starts inside the text and holds 600 characters or, when fewer remain, the rest of
  the text. All chunks but the last two have exactly 600 characters; the window of the chunk
  before the last may reach beyond the end of the text already. A document whose normalized
  text is empty has no chunks.
\<close>

theorem split_text_windows:
  "LocalCorpus_split_text (LocalCorpus_init d 600 80) s =
     map (\<lambda>j. take 600 (drop (520 * j) (normalize s)))
       [0..<(length (normalize s) + 519) div 520]
   \<and> file_chunks (LocalCorpus_init d 600 80) (name, s) =
     map (\<lambda>j. \<lparr>doc_id = name, chunk_id = int j,
                 chunk_text = take 600 (drop (520 * j) (normalize s))\<rparr>)
       [0..<(length (normalize s) + 519) div 520]
   \<and> (\<forall>j. j < (length (normalize s) + 519) div 520 \<longrightarrow>
         520 * j < length (normalize s)
         \<and> length (take 600 (drop (520 * j) (normalize s)))
             = min 600 (length (normalize s) - 520 * j))
   \<and> (\<forall>j. j + 2 < (length (normalize s) + 519) div 520 \<longrightarrow>
         length (take 600 (drop (520 * j) (normalize s))) = 600)
   \<and> (normalize s = [] \<longrightarrow> LocalCorpus_split_text (LocalCorpus_init d 600 80) s = [])"
proof (intro conjI allI impI)
  show "LocalCorpus_split_text (LocalCorpus_init d 600 80) s =
     map (\<lambda>j. take 600 (drop (520 * j) (normalize s)))
       [0..<(length (normalize s) + 519) div 520]"
    by (rule split_text_default)
  show "file_chunks (LocalCorpus_init d 600 80) (name, s) =
     map (\<lambda>j. \<lparr>doc_id = name, chunk_id = int j,
                 chunk_text = take 600 (drop (520 * j) (normalize s))\<rparr>)
       [0..<(length (normalize s) + 519) div 520]"
    by (rule file_chunks_default)
next
  fix j assume "j < (length (normalize s) + 519) div 520"
  then show "520 * j < length (normalize s)" by arith
  show "length (take 600 (drop (520 * j) (normalize s)))
             = min 600 (length (normalize s) - 520 * j)"
    by simp
next
  fix j assume "j + 2 < (length (normalize s) + 519) div 520"
  then have "520 * j + 600 \<le> length (normalize s)" by arith
  then show "length (take 600 (drop (520 * j) (normalize s))) = 600" by simp
next
  assume "normalize s = []"
  then show "LocalCorpus_split_text (LocalCorpus_init d 600 80) s = []"
    by (simp add: LocalCorpus_split_text_def)
qed

text \<open>The theorem on a text of 1100 characters without whitespace, and on a
  text of whitespace only.\<close>

theorem split_text_windows_witness:
  "file_chunks (LocalCorpus_init ''data'' 600 80) (''a.txt'', replicate 1100 CHR ''a'') =
     [\<lparr>doc_id = ''a.txt'', chunk_id = 0, chunk_text = replicate 600 CHR ''a''\<rparr>,
      \<lparr>doc_id = ''a.txt'', chunk_id = 1, chunk_text = replicate 580 CHR ''a''\<rparr>,
      \<lparr>doc_id = ''a.txt'', chunk_id = 2, chunk_text = replicate 60 CHR ''a''\<rparr>]
   \<and> (0::nat) + 2 < (length (normalize (replicate 1100 CHR ''a'')) + 519) div 520
   \<and> length (take 600 (drop (520 * 0) (normalize (replicate 1100 CHR ''a'')))) = 600
   \<and> LocalCorpus_split_text (LocalCorpus_init ''data'' 600 80) ''  '' = []"
proof -
  have n: "normalize (replicate 1100 CHR ''a'') = replicate 1100 CHR ''a''"
    by (rule normalize_no_space) (simp add: is_space_def)
  have u: "[0..<3::nat] = [0, 1, 2]"
    by (simp add: upt_rec)
  have e: "normalize ''  '' = []"
    by (simp add: normalize_def strip_def is_space_def)
  show ?thesis
    using split_text_windows [of "''data''" "replicate 1100 CHR ''a''" "''a.txt''"]
      split_text_windows [of "''data''" "''  ''" "''a.txt''"]
    by (simp add: n u e)
qed

text \<open>
The claim as stated allows only the final chunk to be shorter than 600 characters. A text
  of 1100 characters has three chunks, of 600, 580 and 60 characters: the middle one is
  not the final chunk, and it is shorter.
\<close>

theorem split_text_short_middle_chunk:
  "map length (LocalCorpus_split_text (LocalCorpus_init ''data'' 600 80)
     (replicate 1100 CHR ''a'')) = [600, 580, 60]"
proof -
  have "normalize (replicate 1100 CHR ''a'') = replicate 1100 CHR ''a''"
    by (rule normalize_no_space) (simp add: is_space_def)
  moreover have "[0..<3::nat] = [0, 1, 2]"
    by (simp add: upt_rec)
  ultimately show ?thesis by (simp add: split_text_default)
qed

subsection \<open>C6\<close>

text \<open>
Claim C6: for every non-empty list of hits, when no sentence of the context meets the
  overlap threshold, the answer is the first sentence of the top-ranked chunk, cited to that
  chunk. The code misses the case of a top-ranked chunk that does not fit the context
  budget. At the default budget of 2000 characters and a single hit of 2000 characters, the
  context and the list of chosen chunks stay empty, no sentence of the empty context meets
  the threshold, and the fallback reads \<open>chosen[0]\<close>: \<open>answer\<close> raises \<open>IndexError\<close>. Where the
  top-ranked chunk fits the budget the claim holds (\<open>answer_fallback_when_top_fits\<close>).
\<close>

theorem answer_fallback_index_error:
  "build_context 2000 [(\<lparr>doc_id = ''a.txt'', chunk_id = 0, chunk_text = replicate 2000 CHR ''x''\<rparr>, 1)] [] [] = ([], [])
   \<and> filter (meets_threshold (set (findall_words (lower ''What does RAG do?''))))
       (split_sentences []) = []
   \<and> OfflineAnswerer_answer (OfflineAnswerer_init 2000) ''What does RAG do?''
       [(\<lparr>doc_id = ''a.txt'', chunk_id = 0, chunk_text = replicate 2000 CHR ''x''\<rparr>, 1)]
     = Inl IndexError"
proof (intro conjI)
  have l: "int (length (strip (chunk_text (fst (\<lparr>doc_id = ''a.txt'', chunk_id = 0, chunk_text = replicate 2000 CHR ''x''\<rparr>, 1))))) + 1 > 2000"
  proof -
    have "\<not> is_space CHR ''x''" by (simp add: is_space_def)
    then have "strip (replicate 2000 CHR ''x'') = replicate 2000 CHR ''x''"
      by (rule strip_replicate)
    then show ?thesis by simp
  qed
  show "build_context 2000 [(\<lparr>doc_id = ''a.txt'', chunk_id = 0, chunk_text = replicate 2000 CHR ''x''\<rparr>, 1)] [] [] = ([], [])"
    using l by (rule build_context_top_overflows)
  show "filter (meets_threshold (set (findall_words (lower ''What does RAG do?''))))
       (split_sentences []) = []"
    by (simp add: split_sentences_def meets_threshold_empty)
  show "OfflineAnswerer_answer (OfflineAnswerer_init 2000) ''What does RAG do?''
       [(\<lparr>doc_id = ''a.txt'', chunk_id = 0, chunk_text = replicate 2000 CHR ''x''\<rparr>, 1)]
     = Inl IndexError"
    by (rule answer_top_overflows) (use l in \<open>simp add: OfflineAnswerer_init_def\<close>)
qed

subsection \<open>C7\<close>

text \<open>
Claim C7. \<open>build\<close> is idempotent: a second build on the same chunk sequence returns the
  same index state and the same outcome as the first, so every \<open>search\<close> gives the same
  result after two builds as after one. The library functions are functions of their
  arguments, that is, fitting is deterministic.
\<close>

theorem build_twice:
  "TfidfIndex_build L (fst (TfidfIndex_build L idx cs)) cs = TfidfIndex_build L idx cs
   \<and> TfidfIndex_search L (fst (TfidfIndex_build L (fst (TfidfIndex_build L idx cs)) cs)) q k
       = TfidfIndex_search L (fst (TfidfIndex_build L idx cs)) q k"
proof -
  have "TfidfIndex_build L (fst (TfidfIndex_build L idx cs)) cs = TfidfIndex_build L idx cs"
  proof (cases "fit_transform L (map chunk_text cs)")
    case (Inl msg)
    then show ?thesis by (simp add: build_failure)
  next
    case (Inr vm)
    then obtain v m where "fit_transform L (map chunk_text cs) = Inr (v, m)"
      by (cases vm) simp
    then show ?thesis by (simp add: build_success)
  qed
  then show ?thesis by simp
qed

text \<open>The theorem on an index of two chunks.\<close>

theorem build_twice_witness:
  "TfidfIndex_build toy_library (fst (TfidfIndex_build toy_library TfidfIndex_init [\<lparr>doc_id = ''a.txt'', chunk_id = 0, chunk_text = ''RAG retrieves documents.''\<rparr>,
      \<lparr>doc_id = ''b.txt'', chunk_id = 0, chunk_text = ''TF-IDF is a retrieval method.''\<rparr>])) [\<lparr>doc_id = ''a.txt'', chunk_id = 0, chunk_text = ''RAG retrieves documents.''\<rparr>,
      \<lparr>doc_id = ''b.txt'', chunk_id = 0, chunk_text = ''TF-IDF is a retrieval method.''\<rparr>]
     = TfidfIndex_build toy_library TfidfIndex_init [\<lparr>doc_id = ''a.txt'', chunk_id = 0, chunk_text = ''RAG retrieves documents.''\<rparr>,
      \<lparr>doc_id = ''b.txt'', chunk_id = 0, chunk_text = ''TF-IDF is a retrieval method.''\<rparr>]
   \<and> TfidfIndex_search toy_library
       (fst (TfidfIndex_build toy_library (fst (TfidfIndex_build toy_library TfidfIndex_init [\<lparr>doc_id = ''a.txt'', chunk_id = 0, chunk_text = ''RAG retrieves documents.''\<rparr>,
      \<lparr>doc_id = ''b.txt'', chunk_id = 0, chunk_text = ''TF-IDF is a retrieval method.''\<rparr>])) [\<lparr>doc_id = ''a.txt'', chunk_id = 0, chunk_text = ''RAG retrieves documents.''\<rparr>,
      \<lparr>doc_id = ''b.txt'', chunk_id = 0, chunk_text = ''TF-IDF is a retrieval method.''\<rparr>]))
       ''retrieval'' 2
     = TfidfIndex_search toy_library (fst (TfidfIndex_build toy_library TfidfIndex_init [\<lparr>doc_id = ''a.txt'', chunk_id = 0, chunk_text = ''RAG retrieves documents.''\<rparr>,
      \<lparr>doc_id = ''b.txt'', chunk_id = 0, chunk_text = ''TF-IDF is a retrieval method.''\<rparr>]))
       ''retrieval'' 2"
  by (rule build_twice)

subsection \<open>C8\<close>

text \<open>
Claim C8. The \<open>build\<close> of the pipeline fails with the empty-corpus error, the
  \<open>RuntimeError\<close> saying that no \<open>.txt\<close> files were found, exactly when \<open>load\<close> returned no
  chunks. In that case the pipeline, and so its index, is unchanged: the index is not
  built, and on a pipeline whose index had not been built before, \<open>search\<close> and \<open>query\<close>
  still fail with the \<open>AssertionError\<close> "Index not built".
\<close>

theorem pipeline_build_empty_corpus:
  "(snd (RAGPipeline_build L fs p) = Some (RuntimeError no_txt_files)
      \<longleftrightarrow> LocalCorpus_load (corpus p) fs = Inr [])
   \<and> (LocalCorpus_load (corpus p) fs = Inr [] \<longrightarrow> fst (RAGPipeline_build L fs p) = p)
   \<and> (LocalCorpus_load (corpus p) fs = Inr [] \<and> matrix (index p) = None \<longrightarrow>
        TfidfIndex_search L (index (fst (RAGPipeline_build L fs p))) q k
          = Inl (AssertionError ''Index not built'')
        \<and> RAGPipeline_query L (fst (RAGPipeline_build L fs p)) q k
          = Inl (AssertionError ''Index not built''))"
proof (intro conjI impI)
  show "snd (RAGPipeline_build L fs p) = Some (RuntimeError no_txt_files)
      \<longleftrightarrow> LocalCorpus_load (corpus p) fs = Inr []"
  proof (cases "LocalCorpus_load (corpus p) fs")
    case (Inl e)
    then show ?thesis by (simp add: LocalCorpus_load_def)
  next
    case (Inr cs)
    show ?thesis
    proof (cases "cs = []")
      case True
      with Inr show ?thesis by (simp add: RAGPipeline_build_def)
    next
      case False
      with Inr build_result_cases [of L cs "index p"] show ?thesis
        by (auto simp: RAGPipeline_build_def)
    qed
  qed
next
  assume "LocalCorpus_load (corpus p) fs = Inr []"
  then show "fst (RAGPipeline_build L fs p) = p" by (simp add: RAGPipeline_build_def)
next
  assume h: "LocalCorpus_load (corpus p) fs = Inr [] \<and> matrix (index p) = None"
  then have same: "fst (RAGPipeline_build L fs p) = p" by (simp add: RAGPipeline_build_def)
  from h show "TfidfIndex_search L (index (fst (RAGPipeline_build L fs p))) q k
          = Inl (AssertionError ''Index not built'')"
    by (simp add: same search_not_built)
  from h show "RAGPipeline_query L (fst (RAGPipeline_build L fs p)) q k
          = Inl (AssertionError ''Index not built'')"
    by (simp add: same RAGPipeline_query_def search_not_built)
qed

text \<open>The theorem on a new pipeline, for a directory without and a directory
  with \<open>.txt\<close> files.\<close>

theorem pipeline_build_empty_corpus_witness:
  "snd (RAGPipeline_build toy_library (\<lambda>d. if d = ''data'' then [(''notes.md'', ''RAG retrieves documents.'')] else []) \<lparr>corpus = LocalCorpus_init ''data'' 600 80, index = TfidfIndex_init,
       answerer = Offline (OfflineAnswerer_init 2000)\<rparr>) = Some (RuntimeError no_txt_files)
   \<and> LocalCorpus_load (corpus (\<lparr>corpus = LocalCorpus_init ''data'' 600 80, index = TfidfIndex_init,
       answerer = Offline (OfflineAnswerer_init 2000)\<rparr> :: (unit, string list) rag_pipeline)) (\<lambda>d. if d = ''data'' then [(''notes.md'', ''RAG retrieves documents.'')] else []) = Inr []
   \<and> fst (RAGPipeline_build toy_library (\<lambda>d. if d = ''data'' then [(''notes.md'', ''RAG retrieves documents.'')] else []) \<lparr>corpus = LocalCorpus_init ''data'' 600 80, index = TfidfIndex_init,
       answerer = Offline (OfflineAnswerer_init 2000)\<rparr>) = \<lparr>corpus = LocalCorpus_init ''data'' 600 80, index = TfidfIndex_init,
       answerer = Offline (OfflineAnswerer_init 2000)\<rparr>
   \<and> RAGPipeline_query toy_library (fst (RAGPipeline_build toy_library (\<lambda>d. if d = ''data'' then [(''notes.md'', ''RAG retrieves documents.'')] else []) \<lparr>corpus = LocalCorpus_init ''data'' 600 80, index = TfidfIndex_init,
       answerer = Offline (OfflineAnswerer_init 2000)\<rparr>)) ''What does RAG do?'' 3
       = Inl (AssertionError ''Index not built'')
   \<and> snd (RAGPipeline_build toy_library (\<lambda>d. if d = ''data'' then [(''b.txt'', ''TF-IDF is a retrieval method.''), (''a.txt'', ''RAG retrieves documents.'')] else []) \<lparr>corpus = LocalCorpus_init ''data'' 600 80, index = TfidfIndex_init,
       answerer = Offline (OfflineAnswerer_init 2000)\<rparr>) \<noteq> Some (RuntimeError no_txt_files)
   \<and> LocalCorpus_load (corpus (\<lparr>corpus = LocalCorpus_init ''data'' 600 80, index = TfidfIndex_init,
       answerer = Offline (OfflineAnswerer_init 2000)\<rparr> :: (unit, string list) rag_pipeline)) (\<lambda>d. if d = ''data'' then [(''b.txt'', ''TF-IDF is a retrieval method.''), (''a.txt'', ''RAG retrieves documents.'')] else []) \<noteq> Inr []"
proof -
  have e: "LocalCorpus_load (corpus (\<lparr>corpus = LocalCorpus_init ''data'' 600 80, index = TfidfIndex_init,
       answerer = Offline (OfflineAnswerer_init 2000)\<rparr> :: (unit, string list) rag_pipeline)) (\<lambda>d. if d = ''data'' then [(''notes.md'', ''RAG retrieves documents.'')] else []) = Inr []"
    by (simp add: LocalCorpus_load_def LocalCorpus_init_def matches_txt_def)
  have n: "LocalCorpus_load (corpus (\<lparr>corpus = LocalCorpus_init ''data'' 600 80, index = TfidfIndex_init,
       answerer = Offline (OfflineAnswerer_init 2000)\<rparr> :: (unit, string list) rag_pipeline)) (\<lambda>d. if d = ''data'' then [(''b.txt'', ''TF-IDF is a retrieval method.''), (''a.txt'', ''RAG retrieves documents.'')] else []) \<noteq> Inr []"
    by code_simp
  have m: "matrix (index (\<lparr>corpus = LocalCorpus_init ''data'' 600 80, index = TfidfIndex_init,
       answerer = Offline (OfflineAnswerer_init 2000)\<rparr> :: (unit, string list) rag_pipeline)) = None"
    by (simp add: TfidfIndex_init_def)
  note a = pipeline_build_empty_corpus [of toy_library "(\<lambda>d. if d = ''data'' then [(''notes.md'', ''RAG retrieves documents.'')] else [])" "\<lparr>corpus = LocalCorpus_init ''data'' 600 80, index = TfidfIndex_init,
       answerer = Offline (OfflineAnswerer_init 2000)\<rparr>" "''What does RAG do?''" 3]
  note b = pipeline_build_empty_corpus [of toy_library "(\<lambda>d. if d = ''data'' then [(''b.txt'', ''TF-IDF is a retrieval method.''), (''a.txt'', ''RAG retrieves documents.'')] else [])" "\<lparr>corpus = LocalCorpus_init ''data'' 600 80, index = TfidfIndex_init,
       answerer = Offline (OfflineAnswerer_init 2000)\<rparr>" "''What does RAG do?''" 3]
  from a e have 1: "snd (RAGPipeline_build toy_library (\<lambda>d. if d = ''data'' then [(''notes.md'', ''RAG retrieves documents.'')] else []) \<lparr>corpus = LocalCorpus_init ''data'' 600 80, index = TfidfIndex_init,
       answerer = Offline (OfflineAnswerer_init 2000)\<rparr>) = Some (RuntimeError no_txt_files)"
    by blast
  from a e have 2: "fst (RAGPipeline_build toy_library (\<lambda>d. if d = ''data'' then [(''notes.md'', ''RAG retrieves documents.'')] else []) \<lparr>corpus = LocalCorpus_init ''data'' 600 80, index = TfidfIndex_init,
       answerer = Offline (OfflineAnswerer_init 2000)\<rparr>) = \<lparr>corpus = LocalCorpus_init ''data'' 600 80, index = TfidfIndex_init,
       answerer = Offline (OfflineAnswerer_init 2000)\<rparr>"
    by blast
  from a e m have 3: "RAGPipeline_query toy_library (fst (RAGPipeline_build toy_library (\<lambda>d. if d = ''data'' then [(''notes.md'', ''RAG retrieves documents.'')] else []) \<lparr>corpus = LocalCorpus_init ''data'' 600 80, index = TfidfIndex_init,
       answerer = Offline (OfflineAnswerer_init 2000)\<rparr>)) ''What does RAG do?'' 3
       = Inl (AssertionError ''Index not built'')"
    by blast
  from b n have 4: "snd (RAGPipeline_build toy_library (\<lambda>d. if d = ''data'' then [(''b.txt'', ''TF-IDF is a retrieval method.''), (''a.txt'', ''RAG retrieves documents.'')] else []) \<lparr>corpus = LocalCorpus_init ''data'' 600 80, index = TfidfIndex_init,
       answerer = Offline (OfflineAnswerer_init 2000)\<rparr>) \<noteq> Some (RuntimeError no_txt_files)"
    by blast
  from 1 e 2 3 4 n show ?thesis by (intro conjI)
qed

subsection \<open>C9\<close>

text \<open>
Claim C9. The constructor of \<open>OpenAIAnswerer\<close>, and with it the constructor of a
  pipeline that uses it, fails with the \<open>RuntimeError\<close> "OPENAI_API_KEY not set \<dots>" when
  the variable is absent from the environment: no answerer and no pipeline exist on which a
  query could be attempted. With a key, a non-empty value of the variable, the
  constructor succeeds and keeps the key. (An empty value counts as no key for
  \<open>not self.api_key\<close>.)
\<close>

theorem openai_init_credential:
  "(env ''OPENAI_API_KEY'' = None \<longrightarrow>
      OpenAIAnswerer_init env mdl = Inl (RuntimeError key_not_set)
      \<and> (RAGPipeline_init env d True mdl :: error + ('v, 'm) rag_pipeline)
          = Inl (RuntimeError key_not_set))
   \<and> (env ''OPENAI_API_KEY'' = Some key \<and> key \<noteq> [] \<longrightarrow>
      OpenAIAnswerer_init env mdl = Inr \<lparr>model = mdl, api_key = key\<rparr>
      \<and> (RAGPipeline_init env d True mdl :: error + ('v, 'm) rag_pipeline)
          = Inr \<lparr>corpus = LocalCorpus_init d 600 80, index = TfidfIndex_init,
                 answerer = OpenAI \<lparr>model = mdl, api_key = key\<rparr>\<rparr>)"
  by (simp add: OpenAIAnswerer_init_def RAGPipeline_init_def)

text \<open>The theorem on the empty environment and on one that holds a key.\<close>

theorem openai_init_credential_witness:
  "OpenAIAnswerer_init Map.empty ''gpt-4o-mini'' = Inl (RuntimeError key_not_set)
   \<and> (RAGPipeline_init Map.empty ''data'' True ''gpt-4o-mini'' :: error + (unit, string list) rag_pipeline)
       = Inl (RuntimeError key_not_set)
   \<and> OpenAIAnswerer_init [''OPENAI_API_KEY'' \<mapsto> ''sk-test''] ''gpt-4o-mini''
       = Inr \<lparr>model = ''gpt-4o-mini'', api_key = ''sk-test''\<rparr>"
  using openai_init_credential [of Map.empty "''gpt-4o-mini''" "''data''" "''sk-test''", where ?'v = unit and ?'m = "string list"]
    openai_init_credential [of "[''OPENAI_API_KEY'' \<mapsto> ''sk-test'']" "''gpt-4o-mini''" "''data''" "''sk-test''", where ?'v = unit and ?'m = "string list"]
  by simp

subsection \<open>C10\<close>

text \<open>
Claim C10. For a non-empty list of hits: when the stripped text of the first chunk has
  at most \<open>max_context_chars - 1\<close> characters, \<open>answer\<close> returns a string; when it overflows
  the budget (its length plus 1 exceeds \<open>max_context_chars\<close>), the context and the list of
  chosen chunks stay empty and \<open>answer\<close> fails with \<open>IndexError\<close> in the fallback. Hits of
  both kinds exist, as the witness shows.
\<close>

theorem answer_total_iff_top_fits:
  assumes "hits \<noteq> []"
  shows "(int (length (strip (chunk_text (fst (hd hits))))) \<le> max_context_chars a - 1 \<longrightarrow>
            (\<exists>s. OfflineAnswerer_answer a q hits = Inr s))
       \<and> (int (length (strip (chunk_text (fst (hd hits))))) + 1 > max_context_chars a \<longrightarrow>
            build_context (max_context_chars a) hits [] [] = ([], [])
            \<and> OfflineAnswerer_answer a q hits = Inl IndexError)"
proof -
  from assms obtain h rest where hits: "hits = h # rest" by (cases hits) auto
  show ?thesis
    unfolding hits using answer_top_fits [of h a q rest] answer_top_overflows [of a h q rest]
      build_context_top_overflows [of "max_context_chars a" h rest]
    by (simp del: build_context.simps)
qed

text \<open>The same hit under a budget of 2000 and under a budget of 20 characters.\<close>

theorem answer_total_iff_top_fits_witness:
  "(\<exists>s. OfflineAnswerer_answer (OfflineAnswerer_init 2000) ''What does RAG do?''
      [(\<lparr>doc_id = ''a.txt'', chunk_id = 0,
          chunk_text = ''RAG retrieves documents. It reduces hallucinations.''\<rparr>, 1)] = Inr s)
   \<and> OfflineAnswerer_answer (OfflineAnswerer_init 20) ''What does RAG do?''
      [(\<lparr>doc_id = ''a.txt'', chunk_id = 0,
          chunk_text = ''RAG retrieves documents. It reduces hallucinations.''\<rparr>, 1)] = Inl IndexError"
proof
  show "\<exists>s. OfflineAnswerer_answer (OfflineAnswerer_init 2000) ''What does RAG do?''
      [(\<lparr>doc_id = ''a.txt'', chunk_id = 0,
          chunk_text = ''RAG retrieves documents. It reduces hallucinations.''\<rparr>, 1)] = Inr s"
    using answer_total_iff_top_fits [of "[(\<lparr>doc_id = ''a.txt'', chunk_id = 0,
          chunk_text = ''RAG retrieves documents. It reduces hallucinations.''\<rparr>, 1)]"
        "OfflineAnswerer_init 2000" "''What does RAG do?''"]
    by (simp add: OfflineAnswerer_init_def strip_def is_space_def)
next
  show "OfflineAnswerer_answer (OfflineAnswerer_init 20) ''What does RAG do?''
      [(\<lparr>doc_id = ''a.txt'', chunk_id = 0,
          chunk_text = ''RAG retrieves documents. It reduces hallucinations.''\<rparr>, 1)] = Inl IndexError"
    using answer_total_iff_top_fits [of "[(\<lparr>doc_id = ''a.txt'', chunk_id = 0,
          chunk_text = ''RAG retrieves documents. It reduces hallucinations.''\<rparr>, 1)]"
        "OfflineAnswerer_init 20" "''What does RAG do?''"]
    by (simp add: OfflineAnswerer_init_def strip_def is_space_def)
qed

end
